theory Spec2Isabelle
  imports Complex_Main "HOL-Library.Char_ord" "HOL-Library.List_Lexorder"
begin

section \<open>Serenity Student backend: sentiment extraction and wellness statistics\<close>

text \<open>
  A shallow embedding of \<^verbatim>\<open>src/App/backend/server.py\<close>: the sentiment
  extractor \<^verbatim>\<open>analyze_sentiment\<close>, the handlers \<^verbatim>\<open>create_journal_entry\<close>,
  \<^verbatim>\<open>chat_with_companion\<close>, \<^verbatim>\<open>create_mood_checkin\<close> and
  \<^verbatim>\<open>get_user_stats\<close>, and the document store they write to and read from.

  Conventions of the model.
  \<^item> A Python \<^verbatim>\<open>str\<close> is a \<open>string\<close> whose characters are the code points
    0 to 255 (Latin-1); \<^verbatim>\<open>strip\<close> and \<^verbatim>\<open>lower\<close> are written out for that range.
  \<^item> A Python \<^verbatim>\<open>float\<close> that comes from \<^verbatim>\<open>float(str)\<close> is a \<open>pyfloat\<close>:
    the exact decimal value read, or one of \<^verbatim>\<open>inf\<close>, \<^verbatim>\<open>-inf\<close>, \<^verbatim>\<open>nan\<close>.
    Rounding of the decimal to binary64 is left out.
  \<^item> The language-model gateway, the clock, the id generator and the availability of
    the database are inputs of each handler.
  \<^item> An exception is a value: \<open>None\<close> inside the extractor (where the source catches
    it), \<open>Inl\<close> of an \<open>HTTPException\<close> at a handler.
\<close>

subsection \<open>Python string operations\<close>

definition is_space :: "char \<Rightarrow> bool" where
  \<comment> \<open>\<^verbatim>\<open>str.isspace\<close> on the code points below 256\<close>
  "is_space c \<longleftrightarrow> c \<in> {CHR 0x09, CHR 0x0A, CHR 0x0B, CHR 0x0C, CHR 0x0D,
     CHR 0x1C, CHR 0x1D, CHR 0x1E, CHR 0x1F, CHR 0x20, CHR 0x85, CHR 0xA0}"

definition py_strip :: "string \<Rightarrow> string" where
  "py_strip s = rev (dropWhile is_space (rev (dropWhile is_space s)))"

definition lower_char :: "char \<Rightarrow> char" where
  \<comment> \<open>\<^verbatim>\<open>A-Z\<close> and the Latin-1 capitals \<^verbatim>\<open>0xC0-0xDE\<close> (but the multiplication sign
     \<^verbatim>\<open>0xD7\<close>) move up by 32\<close>
  "lower_char c = (let n = (of_char c :: nat) in
     if (65 \<le> n \<and> n \<le> 90) \<or> (192 \<le> n \<and> n \<le> 222 \<and> n \<noteq> 215)
     then char_of (n + 32) else c)"

definition py_lower :: "string \<Rightarrow> string" where
  "py_lower s = map lower_char s"

definition startswith :: "string \<Rightarrow> string \<Rightarrow> bool" where
  "startswith s p \<longleftrightarrow> take (length p) s = p"

function split_on :: "char \<Rightarrow> string \<Rightarrow> string list" where
  \<comment> \<open>\<^verbatim>\<open>s.split(sep)\<close> for a one-character separator: never an empty list\<close>
  "split_on sep s =
     takeWhile (\<lambda>c. c \<noteq> sep) s #
       (case dropWhile (\<lambda>c. c \<noteq> sep) s of [] \<Rightarrow> [] | _ # rest \<Rightarrow> split_on sep rest)"
  by pat_completeness auto
termination
proof (relation "measure (\<lambda>(sep, s). length s)")
  show "wf (measure (\<lambda>(sep, s). length s))" by simp
next
  fix sep :: char and s :: string and x rest
  assume "dropWhile (\<lambda>c. c \<noteq> sep) s = x # rest"
  then have "length rest < length (dropWhile (\<lambda>c. c \<noteq> sep) s)" by simp
  also have "\<dots> \<le> length s" by (rule length_dropWhile_le)
  finally show "((sep, rest), (sep, s)) \<in> measure (\<lambda>(sep, s). length s)" by simp
qed

definition split_colon_1 :: "string \<Rightarrow> string option" where
  \<comment> \<open>\<^verbatim>\<open>line.split(':', 1)[1]\<close>: the text after the first colon; \<open>None\<close> is the
     IndexError of a line without a colon\<close>
  "split_colon_1 line =
     (case dropWhile (\<lambda>c. c \<noteq> CHR '':'') line of [] \<Rightarrow> None | _ # rest \<Rightarrow> Some rest)"

subsection \<open>Python's \<^verbatim>\<open>float(str)\<close>\<close>

datatype pyfloat = Finite rat | PosInf | NegInf | NaN

definition is_digit :: "char \<Rightarrow> bool" where
  "is_digit c \<longleftrightarrow> CHR ''0'' \<le> c \<and> c \<le> CHR ''9''"

definition digit_val :: "char \<Rightarrow> nat" where
  "digit_val c = of_char c - 48"

definition digits_val :: "string \<Rightarrow> nat" where
  "digits_val ds = foldl (\<lambda>acc c. 10 * acc + digit_val c) 0 ds"

fun strip_underscores :: "char \<Rightarrow> string \<Rightarrow> string option" where
  \<comment> \<open>an underscore is allowed only between two digits; the first argument is the
     character before\<close>
  "strip_underscores prev [] = (if prev = CHR ''_'' then None else Some [])"
| "strip_underscores prev (c # cs) =
     (if c = CHR ''_'' then
        (if is_digit prev then strip_underscores c cs else None)
      else if prev = CHR ''_'' \<and> \<not> is_digit c then None
      else map_option ((#) c) (strip_underscores c cs))"

definition split_sign :: "string \<Rightarrow> bool \<times> string" where
  \<comment> \<open>an optional sign: whether it is a minus, and the rest\<close>
  "split_sign s = (case s of
      c # cs \<Rightarrow> if c = CHR ''-'' then (True, cs) else if c = CHR ''+'' then (False, cs)
                else (False, s)
    | [] \<Rightarrow> (False, s))"

definition scale10 :: "rat \<Rightarrow> int \<Rightarrow> rat" where
  "scale10 m e = (if 0 \<le> e then m * 10 ^ nat e else m / 10 ^ nat (- e))"

definition parse_exponent :: "string \<Rightarrow> int option" where
  \<comment> \<open>what follows the mantissa: nothing, or \<^verbatim>\<open>e\<close>, an optional sign and digits\<close>
  "parse_exponent s = (case s of
      [] \<Rightarrow> Some 0
    | c # cs \<Rightarrow>
        if c = CHR ''e'' \<or> c = CHR ''E'' then
          (let (neg, ds) = split_sign cs in
           if ds \<noteq> [] \<and> list_all is_digit ds
           then Some (if neg then - int (digits_val ds) else int (digits_val ds))
           else None)
        else None)"

definition parse_decimal :: "string \<Rightarrow> rat option" where
  \<comment> \<open>digits, an optional point and digits (at least one digit in all), an optional
     exponent; nothing may follow\<close>
  "parse_decimal s =
     (let ip = takeWhile is_digit s; r1 = dropWhile is_digit s;
          (fp, r2) = (case r1 of
              c # cs \<Rightarrow> if c = CHR ''.'' then (takeWhile is_digit cs, dropWhile is_digit cs)
                        else ([], r1)
            | [] \<Rightarrow> ([], r1))
      in if ip = [] \<and> fp = [] then None
         else map_option
           (\<lambda>e. scale10 (of_nat (digits_val (ip @ fp))) (e - int (length fp)))
           (parse_exponent r2))"

definition py_float :: "string \<Rightarrow> pyfloat option" where
  \<comment> \<open>\<^verbatim>\<open>float(s)\<close>; \<open>None\<close> is its ValueError\<close>
  "py_float s0 =
     (case strip_underscores (CHR 0x00) (py_strip s0) of
        None \<Rightarrow> None
      | Some s \<Rightarrow>
         (let (neg, r) = split_sign s; w = py_lower r in
          if w = ''inf'' \<or> w = ''infinity'' then Some (if neg then NegInf else PosInf)
          else if w = ''nan'' then Some NaN
          else map_option (\<lambda>q. Finite (if neg then - q else q)) (parse_decimal r)))"

subsection \<open>The language-model gateway\<close>

record LlmChat =
  session_id :: string
  system_message :: string
  provider :: string
  model :: string

datatype gateway_reply =
    Raises           \<comment> \<open>\<^verbatim>\<open>send_message\<close> raises an \<^verbatim>\<open>Exception\<close>\<close>
  | Text string      \<comment> \<open>it returns this text\<close>
  | Returns_None     \<comment> \<open>it returns \<^verbatim>\<open>None\<close> instead of a \<^verbatim>\<open>str\<close>\<close>

type_synonym gateway = "LlmChat \<Rightarrow> string \<Rightarrow> gateway_reply"

definition get_sentiment_chat :: LlmChat where
  "get_sentiment_chat = \<lparr>session_id = ''sentiment-analysis'',
     system_message = ''You are a mental health AI assistant specializing in sentiment analysis for students. Analyze the emotional tone and provide supportive insights. Be empathetic, non-judgmental, and focus on student wellness.'',
     provider = ''openai'', model = ''gpt-4o-mini''\<rparr>"


subsection \<open>\<^verbatim>\<open>analyze_sentiment\<close>\<close>

record analysis =
  sentiment :: string
  mood_score :: pyfloat
  insights :: string
  stress_indicators :: "string list"

definition sentiment_prompt :: "string \<Rightarrow> string" where
  "sentiment_prompt content =
     ''\<newline>        Analyze the following journal entry from a student and provide:\<newline>        1. Sentiment (positive, neutral, negative, mixed)\<newline>        2. Mood score (1-10, where 1 is very negative, 10 is very positive)\<newline>        3. Brief supportive insight (2-3 sentences)\<newline>        4. Any stress indicators detected\<newline>        \<newline>        Journal entry: ''
     @ [CHR 0x22] @ content @ [CHR 0x22] @
     ''\<newline>        \<newline>        Respond in this format:\<newline>        Sentiment: [sentiment]\<newline>        Mood Score: [score]\<newline>        Insight: [insight]\<newline>        Stress Indicators: [indicators or none]\<newline>        ''"

definition initial_result :: analysis where
  \<comment> \<open>the dictionary the parse starts from\<close>
  "initial_result = \<lparr>sentiment = ''neutral'', mood_score = Finite 5,
     insights = ''Take care of yourself and remember that it'' @ [CHR 0x27] @ ''s okay to have ups and downs.'',
     stress_indicators = []\<rparr>"

definition fallback_result :: analysis where
  \<comment> \<open>the dictionary of the \<^verbatim>\<open>except Exception\<close> branch\<close>
  "fallback_result = \<lparr>sentiment = ''neutral'', mood_score = Finite 5,
     insights = ''Thank you for sharing. Remember to take care of yourself.'',
     stress_indicators = []\<rparr>"

definition parse_line :: "analysis \<Rightarrow> string \<Rightarrow> analysis option" where
  \<comment> \<open>one turn of the loop over the lines; \<open>None\<close> is an exception that leaves the loop\<close>
  "parse_line result line =
     (if startswith line ''Sentiment:'' then
        map_option (\<lambda>t. result\<lparr>sentiment := py_lower (py_strip t)\<rparr>) (split_colon_1 line)
      else if startswith line ''Mood Score:'' then
        Some (case Option.bind (split_colon_1 line) (\<lambda>t. py_float (py_strip t)) of
                Some v \<Rightarrow> result\<lparr>mood_score := v\<rparr>
              | None \<Rightarrow> result\<lparr>mood_score := Finite 5\<rparr>)
      else if startswith line ''Insight:'' then
        map_option (\<lambda>t. result\<lparr>insights := py_strip t\<rparr>) (split_colon_1 line)
      else if startswith line ''Stress Indicators:'' then
        map_option
          (\<lambda>t. let indicators_text = py_strip t in
                if py_lower indicators_text \<noteq> ''none''
                then result\<lparr>stress_indicators := [indicators_text]\<rparr> else result)
          (split_colon_1 line)
      else Some result)"

fun parse_lines :: "analysis \<Rightarrow> string list \<Rightarrow> analysis option" where
  "parse_lines result [] = Some result"
| "parse_lines result (line # lines) =
     (case parse_line result line of
        None \<Rightarrow> None
      | Some result' \<Rightarrow> parse_lines result' lines)"

definition parse_response :: "string \<Rightarrow> analysis option" where
  "parse_response response =
     parse_lines initial_result (split_on (CHR ''\<newline>'') (py_strip response))"

definition analyze_sentiment :: "gateway \<Rightarrow> string \<Rightarrow> analysis" where
  "analyze_sentiment gw content =
     (case gw get_sentiment_chat (sentiment_prompt content) of
        Raises \<Rightarrow> fallback_result
      | Returns_None \<Rightarrow> fallback_result
      | Text response \<Rightarrow>
          (case parse_response response of
             None \<Rightarrow> fallback_result
           | Some result \<Rightarrow> result))"

subsection \<open>Models and stored documents\<close>

















subsection \<open>The document store\<close>







subsection \<open>The handlers that write\<close>





subsection \<open>\<^verbatim>\<open>get_user_stats\<close>\<close>








subsection \<open>The awaits of \<^verbatim>\<open>create_journal_entry\<close>, one step at a time\<close>





subsection \<open>The stores the handlers can produce\<close>





subsection \<open>Sample inputs\<close>

definition reply_with :: "gateway_reply \<Rightarrow> gateway" where
  \<comment> \<open>a gateway that answers every call alike\<close>
  "reply_with r chat prompt = r"





section \<open>Properties of the sentiment extractor\<close>

subsection \<open>One line of the reply\<close>

lemma startswith_iff: "startswith s p \<longleftrightarrow> (\<exists>t. s = p @ t)"
proof
  assume "startswith s p"
  then have "s = p @ drop (length p) s"
    unfolding startswith_def by (metis append_take_drop_id)
  then show "\<exists>t. s = p @ t" ..
next
  assume "\<exists>t. s = p @ t"
  then show "startswith s p" by (auto simp: startswith_def)
qed

lemma parse_line_sentiment:
  "parse_line r (''Sentiment:'' @ t) = Some (r\<lparr>sentiment := py_lower (py_strip t)\<rparr>)"
  by (simp add: parse_line_def startswith_def split_colon_1_def)

lemma parse_line_mood_score:
  "parse_line r (''Mood Score:'' @ t) =
     Some (r\<lparr>mood_score := (case py_float (py_strip t) of Some v \<Rightarrow> v | None \<Rightarrow> Finite 5)\<rparr>)"
  by (simp add: parse_line_def startswith_def split_colon_1_def split: option.split)

lemma parse_line_insight:
  "parse_line r (''Insight:'' @ t) = Some (r\<lparr>insights := py_strip t\<rparr>)"
  by (simp add: parse_line_def startswith_def split_colon_1_def)

lemma parse_line_stress:
  "parse_line r (''Stress Indicators:'' @ t) =
     Some (if py_lower (py_strip t) \<noteq> ''none'' then r\<lparr>stress_indicators := [py_strip t]\<rparr> else r)"
  by (simp add: parse_line_def startswith_def split_colon_1_def Let_def)

lemma parse_line_other:
  "\<not> startswith l ''Sentiment:'' \<Longrightarrow> \<not> startswith l ''Mood Score:'' \<Longrightarrow>
   \<not> startswith l ''Insight:'' \<Longrightarrow> \<not> startswith l ''Stress Indicators:'' \<Longrightarrow>
   parse_line r l = Some r"
  by (simp add: parse_line_def)

lemma parse_line_total: "\<exists>r'. parse_line r l = Some r'"
proof -
  consider (a) "startswith l ''Sentiment:''" | (b) "startswith l ''Mood Score:''"
    | (c) "startswith l ''Insight:''" | (d) "startswith l ''Stress Indicators:''"
    | (e) "\<not> startswith l ''Sentiment:''" "\<not> startswith l ''Mood Score:''"
          "\<not> startswith l ''Insight:''" "\<not> startswith l ''Stress Indicators:''"
    by blast
  then show ?thesis
  proof cases
    case a then show ?thesis unfolding startswith_iff using parse_line_sentiment by blast
  next
    case b then show ?thesis unfolding startswith_iff using parse_line_mood_score by blast
  next
    case c then show ?thesis unfolding startswith_iff using parse_line_insight by blast
  next
    case d then show ?thesis unfolding startswith_iff using parse_line_stress by blast
  next
    case e then show ?thesis using parse_line_other by blast
  qed
qed

lemma parse_lines_total: "\<exists>r'. parse_lines r ls = Some r'"
proof (induction ls arbitrary: r)
  case Nil show ?case by simp
next
  case (Cons l ls)
  obtain r1 where "parse_line r l = Some r1" using parse_line_total by blast
  with Cons.IH [of r1] show ?case by simp
qed

lemma parse_lines_append:
  "parse_lines r (xs @ ys) = Option.bind (parse_lines r xs) (\<lambda>r'. parse_lines r' ys)"
  by (induction xs arbitrary: r) (auto split: option.splits)




lemma parse_line_keeps_stress:
  "parse_line r l = Some r' \<Longrightarrow> \<not> startswith l ''Stress Indicators:'' \<Longrightarrow>
   stress_indicators r' = stress_indicators r"
  by (auto simp: parse_line_def Let_def split: if_splits option.splits)

subsection \<open>The whole reply\<close>

lemma parse_lines_keeps:
  assumes keep: "\<And>r l r'. parse_line r l = Some r' \<Longrightarrow> \<not> startswith l p \<Longrightarrow> f r' = f r"
  shows "parse_lines r ls = Some r' \<Longrightarrow> \<forall>l \<in> set ls. \<not> startswith l p \<Longrightarrow> f r' = f r"
proof (induction ls arbitrary: r)
  case Nil then show ?case by simp
next
  case (Cons l ls)
  from Cons.prems(1) obtain r1 where 1: "parse_line r l = Some r1" and 2: "parse_lines r1 ls = Some r'"
    by (auto split: option.splits)
  from 1 Cons.prems(2) have "f r1 = f r" by (simp add: keep)
  moreover from 2 Cons.prems(2) have "f r' = f r1" by (simp add: Cons.IH)
  ultimately show ?case by simp
qed

lemma parse_lines_last:
  assumes keep: "\<And>r l r'. parse_line r l = Some r' \<Longrightarrow> \<not> startswith l p \<Longrightarrow> f r' = f r"
    and post: "\<forall>l \<in> set post. \<not> startswith l p"
    and pre: "parse_lines r0 pre = Some r1"
    and line: "parse_line r1 l = Some r2"
  shows "\<exists>r. parse_lines r0 (pre @ l # post) = Some r \<and> f r = f r2"
proof -
  obtain r where r: "parse_lines r2 post = Some r" using parse_lines_total by blast
  from keep r post have "f r = f r2" by (rule parse_lines_keeps)
  moreover from pre line r have "parse_lines r0 (pre @ l # post) = Some r"
    by (simp add: parse_lines_append)
  ultimately show ?thesis by blast
qed

lemma analyze_sentiment_text:
  "gw get_sentiment_chat (sentiment_prompt content) = Text response \<Longrightarrow>
   parse_response response = Some r \<Longrightarrow> analyze_sentiment gw content = r"
  by (simp add: analyze_sentiment_def)

lemma analyze_sentiment_lines:
  "gw get_sentiment_chat (sentiment_prompt content) = Text response \<Longrightarrow>
   split_on (CHR ''\<newline>'') (py_strip response) = ls \<Longrightarrow>
   parse_lines initial_result ls = Some r \<Longrightarrow> analyze_sentiment gw content = r"
  by (simp add: analyze_sentiment_def parse_response_def)

text \<open>
  Claim C7. A reply that holds only the line \<^verbatim>\<open>Mood Score: 8.5\<close> gives the mood score
  8.5 and leaves the three other fields at their defaults: the sentiment \<^verbatim>\<open>neutral\<close>, the
  default insight, no stress indicators.
\<close>

theorem mood_score_only_reply:
  assumes "gw get_sentiment_chat (sentiment_prompt content) = Text ''Mood Score: 8.5''"
  shows "analyze_sentiment gw content =
     \<lparr>sentiment = ''neutral'', mood_score = Finite 8.5, insights = insights initial_result,
      stress_indicators = []\<rparr>"
proof -
  have "py_float (py_strip '' 8.5'') = Some (Finite 8.5)"
    by code_simp
  then have "parse_line initial_result (''Mood Score:'' @ '' 8.5'') =
      Some (initial_result\<lparr>mood_score := Finite 8.5\<rparr>)"
    by (simp only: parse_line_mood_score option.case)
  moreover have "split_on (CHR ''\<newline>'') (py_strip ''Mood Score: 8.5'') = [''Mood Score:'' @ '' 8.5'']"
    by code_simp
  ultimately have "parse_response ''Mood Score: 8.5'' = Some (initial_result\<lparr>mood_score := Finite 8.5\<rparr>)"
    by (simp only: parse_response_def parse_lines.simps option.case)
  with assms have "analyze_sentiment gw content = initial_result\<lparr>mood_score := Finite 8.5\<rparr>"
    by (rule analyze_sentiment_text)
  then show ?thesis by (simp add: initial_result_def)
qed

theorem mood_score_only_reply_witness:
  "analyze_sentiment (reply_with (Text ''Mood Score: 8.5'')) ''Exams went fine.'' =
     \<lparr>sentiment = ''neutral'', mood_score = Finite 8.5, insights = insights initial_result,
      stress_indicators = []\<rparr>"
  using mood_score_only_reply [of "reply_with (Text ''Mood Score: 8.5'')" "''Exams went fine.''"]
  by (simp add: reply_with_def)





lemma parse_lines_none_before:
  assumes "\<forall>l \<in> set pre. \<not> startswith l ''Stress Indicators:''"
    and "parse_lines initial_result pre = Some before"
  shows "stress_indicators before = []"
proof -
  from parse_line_keeps_stress assms(2,1)
  have "stress_indicators before = stress_indicators initial_result"
    by (rule parse_lines_keeps)
  then show ?thesis by (simp add: initial_result_def)
qed

text \<open>
  Claim C6, as the code has it. Take a line \<^verbatim>\<open>Stress Indicators: t\<close> of the reply with no
  such line after it. When the stripped text \<open>t\<close> is not \<^verbatim>\<open>none\<close> in any case, the
  result's list of stress indicators is the one-element list of the stripped text. When
  it is \<^verbatim>\<open>none\<close>, the line assigns nothing: the list is what the lines before have
  left, which is the empty list when none of them is a \<^verbatim>\<open>Stress Indicators:\<close> line.
\<close>

theorem stress_indicators_line:
  assumes gw: "gw get_sentiment_chat (sentiment_prompt content) = Text response"
    and ls: "split_on (CHR ''\<newline>'') (py_strip response) = pre @ (''Stress Indicators:'' @ t) # post"
    and later: "\<forall>l \<in> set post. \<not> startswith l ''Stress Indicators:''"
  shows "\<exists>before. parse_lines initial_result pre = Some before
           \<and> stress_indicators (analyze_sentiment gw content) =
               (if py_lower (py_strip t) = ''none'' then stress_indicators before
                else [py_strip t])
           \<and> ((\<forall>l \<in> set pre. \<not> startswith l ''Stress Indicators:'')
                  \<longrightarrow> stress_indicators before = [])"
proof -
  obtain r1 where r1: "parse_lines initial_result pre = Some r1"
    using parse_lines_total by blast
  define r2 where "r2 = (if py_lower (py_strip t) \<noteq> ''none''
      then r1\<lparr>stress_indicators := [py_strip t]\<rparr> else r1)"
  have "parse_line r1 (''Stress Indicators:'' @ t) = Some r2"
    unfolding r2_def by (rule parse_line_stress)
  with parse_line_keeps_stress later r1
  obtain r where r: "parse_lines initial_result (pre @ (''Stress Indicators:'' @ t) # post) = Some r"
    and f: "stress_indicators r = stress_indicators r2"
    using parse_lines_last [where f = stress_indicators] by blast
  from gw ls r have "analyze_sentiment gw content = r" by (rule analyze_sentiment_lines)
  with f have "stress_indicators (analyze_sentiment gw content) =
      (if py_lower (py_strip t) = ''none'' then stress_indicators r1 else [py_strip t])"
    by (simp add: r2_def)
  moreover have "(\<forall>l \<in> set pre. \<not> startswith l ''Stress Indicators:'')
                  \<longrightarrow> stress_indicators r1 = []"
    using r1 parse_lines_none_before by blast
  ultimately show ?thesis using r1 by blast
qed

theorem stress_indicators_line_witness:
  "stress_indicators (analyze_sentiment
      (reply_with (Text ''Sentiment: negative\<newline>Stress Indicators: NoNe'')) ''I am tired.'') = []
   \<and> stress_indicators (analyze_sentiment
      (reply_with (Text ''Stress Indicators: sleep\<newline>Stress Indicators: exam deadlines\<newline>Insight: Rest.''))
      ''I am tired.'') = [''exam deadlines'']"
proof
  let ?R = "''Sentiment: negative\<newline>Stress Indicators: NoNe''"
  have g: "reply_with (Text ?R) get_sentiment_chat (sentiment_prompt ''I am tired.'') = Text ?R"
    by (simp add: reply_with_def)
  have ls: "split_on (CHR ''\<newline>'') (py_strip ?R) =
      [''Sentiment: negative''] @ (''Stress Indicators:'' @ '' NoNe'') # []"
    by code_simp
  have later: "\<forall>l \<in> set []. \<not> startswith l ''Stress Indicators:''" by simp
  have pre: "\<forall>l \<in> set [''Sentiment: negative'']. \<not> startswith l ''Stress Indicators:''"
    by (simp add: startswith_def)
  have low: "py_lower (py_strip '' NoNe'') = ''none''" by code_simp
  from stress_indicators_line [of "reply_with (Text ?R)" "''I am tired.''" ?R
      "[''Sentiment: negative'']" "'' NoNe''" "[]", OF g ls later] pre low
  show "stress_indicators (analyze_sentiment (reply_with (Text ?R)) ''I am tired.'') = []"
    by auto
next
  let ?R = "''Stress Indicators: sleep\<newline>Stress Indicators: exam deadlines\<newline>Insight: Rest.''"
  have g: "reply_with (Text ?R) get_sentiment_chat (sentiment_prompt ''I am tired.'') = Text ?R"
    by (simp add: reply_with_def)
  have ls: "split_on (CHR ''\<newline>'') (py_strip ?R) =
      [''Stress Indicators: sleep''] @ (''Stress Indicators:'' @ '' exam deadlines'') # [''Insight: Rest.'']"
    by code_simp
  have later: "\<forall>l \<in> set [''Insight: Rest.'']. \<not> startswith l ''Stress Indicators:''"
    by (simp add: startswith_def)
  have low: "py_lower (py_strip '' exam deadlines'') \<noteq> ''none''" by code_simp
  have st: "py_strip '' exam deadlines'' = ''exam deadlines''" by code_simp
  from stress_indicators_line [of "reply_with (Text ?R)" "''I am tired.''" ?R
      "[''Stress Indicators: sleep'']" "'' exam deadlines''" "[''Insight: Rest.'']", OF g ls later] low st
  show "stress_indicators (analyze_sentiment (reply_with (Text ?R)) ''I am tired.'') = [''exam deadlines'']"
    by auto
qed

text \<open>
  Claim C6 as stated fails: a reply line \<^verbatim>\<open>Stress Indicators: none\<close> does not yield an
  empty list when an earlier line has set the list.
\<close>

theorem none_line_keeps_earlier_indicators:
  "stress_indicators (analyze_sentiment
      (reply_with (Text ''Stress Indicators: exams\<newline>Stress Indicators: none'')) ''I am tired.'')
   = [''exams'']"
  by code_simp







section \<open>Properties of the statistics\<close>













section \<open>Properties of the handlers that write\<close>

subsection \<open>What a stored document carries\<close>











subsection \<open>The order of analysis and insertion\<close>






end
